theory Spec2Isabelle
  imports Main
begin

section \<open>The notebook \<open>dbg-deepar.ipynb\<close> as a state-passing program\<close>

text \<open>
  The notebook is a straight-line script: its code cells run top to bottom, each one
  reading and extending the variables bound so far. A cell is modelled as a function
  from the notebook state to an error or the next state. Calls into libraries and into
  the managed service are recorded, in source order, in the \<open>trace\<close> of the state; what
  they do remotely is not part of the notebook and they are taken to return.
\<close>

subsection \<open>Values, errors and calls\<close>

datatype py_error =
    AssertionError | NameError | IndexError | KeyError | OverflowError | ValueError
  | OutOfBoundsDatetime

text \<open>
  The three kinds of value the \<open>forecast_date\<close> expression can produce: a time stamp and
  a \<open>datetime.timedelta\<close>, both counted in microseconds, and a plain integer.
\<close>

datatype pyval = Timestamp int | Timedelta int | PyInt int

text \<open>
  A \<open>pandas.Timestamp\<close> is a signed 64-bit count of nanoseconds, so a time stamp of whole
  microseconds is one exactly when its thousandfold fits: between the two bounds below.
\<close>

definition ts_in_range :: "int \<Rightarrow> bool" where
  "ts_in_range t = (- 9223372036854775 \<le> t \<and> t \<le> 9223372036854775)"

text \<open>The arguments \<open>plot_interact\<close> hands to \<open>util.plot\<close>, in the order of the call.\<close>

record plot_args =
  pa_stock_id :: int
  pa_mnemonics :: "string list"
  pa_target_column :: string
  pa_covariate_columns :: "string list"
  pa_prediction_length :: int
  pa_history :: int
  pa_forecast_date :: pyval
  pa_show_samples :: bool
  pa_confidence :: int

datatype api_call =
    GetExecutionRole
  | NewSession
  | GetImageUri
  | DefaultBucket
  | LoadResampledFromS3
  | GenerateTrainTestSet
  | WriteDictsToFile string
  | MetricsPlot
  | TimeseriesPlot
  | EstimatorConstruct
  | SetHyperparameters
  | Fit
  | Deploy
  | PredictorConstruct
  | QueryForStock string
  | Predict
  | PlotPredictedObserved
  | UtilPlot plot_args
  | DeleteEndpoint

text \<open>The five high-level calls of the managed service's client that the workflow is built on.\<close>

fun high_level :: "api_call \<Rightarrow> bool" where
  "high_level EstimatorConstruct = True"
| "high_level Fit = True"
| "high_level Deploy = True"
| "high_level Predict = True"
| "high_level DeleteEndpoint = True"
| "high_level _ = False"

subsection \<open>The notebook state\<close>

record nb_state =
  interval :: string
  prediction_length :: int
  context_length :: int
  mnemonics :: "string list"
  target_column :: string
  covariate_columns :: "string list"
  train_test_split :: "nat \<times> nat"
  num_test_windows :: int
  hyperparameters :: "(string \<times> string) list"
  metrics :: "string list option"
  end_training :: "int option"
  trace :: "api_call list"

text \<open>
  \<open>train_test_split\<close> holds the decimal literal \<open>0.8\<close> as the fraction 8/10. \<open>metrics\<close>
  and \<open>end_training\<close> are bound by later cells; \<open>None\<close> is a name not bound yet.
\<close>

subsection \<open>Python's \<open>str\<close> on integers\<close>

definition digit_char :: "nat \<Rightarrow> char" where
  "digit_char d = char_of (48 + d)"

fun str_nat :: "nat \<Rightarrow> string" where
  "str_nat n = (if n < 10 then [digit_char n] else str_nat (n div 10) @ [digit_char (n mod 10)])"

declare str_nat.simps [simp del]

definition str_int :: "int \<Rightarrow> string" where
  "str_int i = (if i < 0 then CHR ''-'' # str_nat (nat (- i)) else str_nat (nat i))"

subsection \<open>The configuration cell\<close>

text \<open>
  \<^verbatim>\<open>
  interval = 'D' #Use D or H
  assert interval == 'D' or interval == 'H'
  if interval == 'D':
      prediction_length = 91
      context_length = 91
  elif interval == 'H':
      prediction_length = 2184
      context_length = 2184
  mnemonics = ['CON','DAI','PAH3','BMW','VOW3']
  ...
  hyperparameters = { "prediction_length": str(prediction_length), ... }
  \<close>
  The first line is the one the user edits, so \<open>interval\<close> is the parameter of the cell.
  The two lengths are bound only inside the branches: \<open>lengths_for\<close> returns \<open>None\<close> when
  neither branch runs, and reading them then is Python's \<open>NameError\<close>.
\<close>

definition lengths_for :: "string \<Rightarrow> (int \<times> int) option" where
  "lengths_for i =
     (if i = ''D'' then Some (91, 91)
      else if i = ''H'' then Some (2184, 2184)
      else None)"

definition make_hyperparameters :: "string \<Rightarrow> int \<Rightarrow> int \<Rightarrow> (string \<times> string) list" where
  "make_hyperparameters i p c =
     [(''prediction_length'', str_int p),
      (''context_length'', str_int c),
      (''time_freq'', i),
      (''epochs'', ''200''),
      (''early_stopping_patience'', ''40''),
      (''num_layers'', ''2''),
      (''num_cells'', ''40''),
      (''mini_batch_size'', ''128''),
      (''learning_rate'', ''1e-3''),
      (''dropout_rate'', ''0.1''),
      (''likelihood'', ''gaussian'')]"

definition config_cell :: "string \<Rightarrow> py_error + nb_state" where
  "config_cell i =
     (if \<not> (i = ''D'' \<or> i = ''H'') then Inl AssertionError
      else case lengths_for i of
        None \<Rightarrow> Inl NameError
      | Some (p, c) \<Rightarrow>
          Inr \<lparr> interval = i,
                prediction_length = p,
                context_length = c,
                mnemonics = [''CON'', ''DAI'', ''PAH3'', ''BMW'', ''VOW3''],
                target_column = ''EndPrice'',
                covariate_columns = [''StartPrice'', ''MinPrice'', ''MaxPrice''],
                train_test_split = (8, 10),
                num_test_windows = 4,
                hyperparameters = make_hyperparameters i p c,
                metrics = None,
                end_training = None,
                trace = [] \<rparr>)"

subsection \<open>Running cells\<close>

definition calls :: "api_call list \<Rightarrow> nb_state \<Rightarrow> nb_state" where
  "calls cs s = s\<lparr>trace := trace s @ cs\<rparr>"

fun run_cells :: "(nb_state \<Rightarrow> py_error + nb_state) list \<Rightarrow> nb_state \<Rightarrow> py_error + nb_state" where
  "run_cells [] s = Inr s"
| "run_cells (c # cs) s = (case c s of Inl e \<Rightarrow> Inl e | Inr s' \<Rightarrow> run_cells cs s')"

subsection \<open>Session, data and training cells\<close>

text \<open>
  \<^verbatim>\<open>
  role = sagemaker.get_execution_role()
  session = sagemaker.Session()
  image_name = sagemaker.amazon.amazon_estimator.get_image_uri(region, "forecasting-deepar", "latest")
  s3_bucket = session.default_bucket()
  \<close>
\<close>

definition session_cell :: "nb_state \<Rightarrow> py_error + nb_state" where
  "session_cell s = Inr (calls [GetExecutionRole, NewSession, GetImageUri, DefaultBucket] s)"

text \<open>
  \<^verbatim>\<open>
  metrics=[]
  metrics.extend(covariate_columns)
  metrics.append(target_column)
  stock_data_series, symbols = util.load_resampled_from_s3(interval, s3_bucket, s3_data_key, mnemonics, metrics)
  \<close>
\<close>

definition metrics_cell :: "nb_state \<Rightarrow> py_error + nb_state" where
  "metrics_cell s =
     Inr (calls [LoadResampledFromS3]
            (s\<lparr>metrics := Some (([] @ covariate_columns s) @ [target_column s])\<rparr>))"

text \<open>
  \<^verbatim>\<open>
  train_data, test_data, train_start_dt, train_end_dt = util.generate_train_test_set(...)
  end_training = pd.Timestamp(datetime.datetime.strptime(str(train_end_dt), ...).strftime(...), freq = interval)
  train_channel = util.write_dicts_to_file(train_data, interval, s3_bucket, s3_data_key, "train")
  test_channel = util.write_dicts_to_file(test_data, interval, s3_bucket, s3_data_key, "test")
  \<close>
  \<open>train_end_dt\<close> comes back from the utility module; it is the parameter \<open>te\<close> of the
  cell, a time stamp in microseconds. \<open>str\<close> prints a time stamp with a fraction of a
  second unless that fraction is zero, and \<open>strptime\<close> raises \<open>ValueError\<close> on a string
  that has more than the format asks for. \<open>pd.Timestamp\<close> then raises its out-of-bounds
  error on a date outside the range of a time stamp. Otherwise \<open>end_training\<close> is the
  same time point.
\<close>

definition parse_end_training :: "int \<Rightarrow> py_error + int" where
  "parse_end_training te =
     (if te mod 1000000 \<noteq> 0 then Inl ValueError
      else if \<not> ts_in_range te then Inl OutOfBoundsDatetime
      else Inr te)"

definition split_cell :: "int \<Rightarrow> nb_state \<Rightarrow> py_error + nb_state" where
  "split_cell te s =
     (case parse_end_training te of
        Inl e \<Rightarrow> Inl e
      | Inr et \<Rightarrow>
          Inr (calls [WriteDictsToFile ''train'', WriteDictsToFile ''test'']
                 ((calls [GenerateTrainTestSet] s)\<lparr>end_training := Some et\<rparr>)))"

text \<open>\<^verbatim>\<open>util.metrics_plot(mnemonics, metrics, stock_data_series)\<close>\<close>

definition metrics_plot_cell :: "nb_state \<Rightarrow> py_error + nb_state" where
  "metrics_plot_cell s =
     (case metrics s of None \<Rightarrow> Inl NameError | Some m \<Rightarrow> Inr (calls [MetricsPlot] s))"

text \<open>\<^verbatim>\<open>util.timeseries_plot(mnemonics, metrics, stock_data_series)\<close>\<close>

definition timeseries_plot_cell :: "nb_state \<Rightarrow> py_error + nb_state" where
  "timeseries_plot_cell s =
     (case metrics s of None \<Rightarrow> Inl NameError | Some m \<Rightarrow> Inr (calls [TimeseriesPlot] s))"

text \<open>
  \<^verbatim>\<open>
  estimator = sagemaker.estimator.Estimator(...)
  estimator.set_hyperparameters(**hyperparameters)
  estimator.fit(inputs=data_channels, wait=True)
  \<close>
\<close>

definition training_cell :: "nb_state \<Rightarrow> py_error + nb_state" where
  "training_cell s = Inr (calls [EstimatorConstruct, SetHyperparameters, Fit] s)"

text \<open>\<^verbatim>\<open>predictor = estimator.deploy(..., predictor_cls=DeepARPredictor)\<close>\<close>

definition deploy_cell :: "nb_state \<Rightarrow> py_error + nb_state" where
  "deploy_cell s = Inr (calls [Deploy] s)"

text \<open>\<^verbatim>\<open>predictor = DeepARPredictor(estimator_job)\<close>\<close>

definition attach_cell :: "nb_state \<Rightarrow> py_error + nb_state" where
  "attach_cell s = Inr (calls [PredictorConstruct] s)"

text \<open>
  \<^verbatim>\<open>
  ts, dynamic_feat, observed = util.query_for_stock('BMW', target_column, covariate_columns, stock_data_series, prediction_length)
  prediction = predictor.predict(ts=ts, dynamic_feat = dynamic_feat, quantiles=[0.10, 0.5, 0.90], return_samples=False)
  \<close>
\<close>

definition query_cell :: "nb_state \<Rightarrow> py_error + nb_state" where
  "query_cell s = Inr (calls [QueryForStock ''BMW'', Predict] s)"

text \<open>\<^verbatim>\<open>util.plot_predicted_observed_at_quantile(ts, observed, prediction, prediction.columns[-1])\<close>\<close>

definition quantile_plot_cell :: "nb_state \<Rightarrow> py_error + nb_state" where
  "quantile_plot_cell s = Inr (calls [PlotPredictedObserved] s)"

text \<open>\<^verbatim>\<open>predictor.delete_endpoint()\<close>\<close>

definition delete_cell :: "nb_state \<Rightarrow> py_error + nb_state" where
  "delete_cell s = Inr (calls [DeleteEndpoint] s)"

subsection \<open>The interactive plot\<close>

text \<open>
  An \<open>IntSlider\<close> keeps its value between \<open>min\<close> and \<open>max\<close>; those are the values it can
  hand to the callback.
\<close>

record int_slider =
  s_min :: int
  s_max :: int
  s_step :: int
  s_value :: int

definition slider_admits :: "int_slider \<Rightarrow> int \<Rightarrow> bool" where
  "slider_admits sl v = (s_min sl \<le> v \<and> v \<le> s_max sl)"

text \<open>
  \<open>int(context_length*0.75)\<close>: 0.75 is a binary fraction, so the product is exact, and
  \<open>int\<close> truncates towards zero.
\<close>

definition int_three_quarters :: "int \<Rightarrow> int" where
  "int_three_quarters c = (if 0 \<le> c then (3 * c) div 4 else - ((3 * (- c)) div 4))"

text \<open>
  \<open>int(np.log10(context_length))+1\<close>: for a positive integer, the number of its decimal
  digits. \<open>np.log10\<close> gives minus infinity at 0 and not-a-number below, and \<open>int\<close> raises
  on both.
\<close>

definition int_log10_plus_1 :: "int \<Rightarrow> py_error + int" where
  "int_log10_plus_1 c =
     (if c = 0 then Inl OverflowError
      else if c < 0 then Inl ValueError
      else Inr (int (length (str_nat (nat c))) - 1 + 1))"

text \<open>
  \<^verbatim>\<open>
  stock_id=IntSlider(min=0, max=len(mnemonics)-1, value=0, style=style),
  forecast_horizon=IntSlider(min=0, max=int(context_length*0.75), steps = int(np.log10(context_length))+1,
                             value=int(np.log10(context_length))+1, style=style),
  confidence=IntSlider(min=55, max=95, value=80, step=5, style=style),
  history_plot=IntSlider(min=1, max=20, value=1, style=style),
  \<close>
\<close>

definition stock_id_slider :: "nb_state \<Rightarrow> int_slider" where
  "stock_id_slider s =
     \<lparr> s_min = 0, s_max = int (length (mnemonics s)) - 1, s_step = 1, s_value = 0 \<rparr>"

definition forecast_horizon_slider :: "nb_state \<Rightarrow> py_error + int_slider" where
  "forecast_horizon_slider s =
     (case int_log10_plus_1 (context_length s) of
        Inl e \<Rightarrow> Inl e
      | Inr v \<Rightarrow>
          Inr \<lparr> s_min = 0, s_max = int_three_quarters (context_length s), s_step = 1, s_value = v \<rparr>)"



text \<open>The cell that builds the sliders and registers \<open>plot_interact\<close> with \<open>interact_manual\<close>.\<close>

definition widget_cell :: "nb_state \<Rightarrow> py_error + nb_state" where
  "widget_cell s =
     (case forecast_horizon_slider s of Inl e \<Rightarrow> Inl e | Inr sl \<Rightarrow> Inr s)"

text \<open>One press of the widget's button: the values of the four sliders and the checkbox.\<close>

record widget_input =
  stock_id :: int
  forecast_horizon :: int
  confidence :: int
  history_plot :: int
  show_samples :: bool

text \<open>
  \<open>datetime.timedelta(days=d, hours=h, weeks=w)\<close>: the three arguments add up to a count
  of microseconds, and the constructor raises \<open>OverflowError\<close> unless the count lies
  between \<open>timedelta.min\<close> (-999999999 days) and \<open>timedelta.max\<close> (one microsecond less
  than 1000000000 days).
\<close>

definition timedelta_us :: "int \<Rightarrow> int \<Rightarrow> int \<Rightarrow> int" where
  "timedelta_us days hours weeks = ((days + 7 * weeks) * 24 + hours) * 3600000000"

definition timedelta :: "int \<Rightarrow> int \<Rightarrow> int \<Rightarrow> py_error + int" where
  "timedelta days hours weeks =
     (if - 999999999 * 86400000000 \<le> timedelta_us days hours weeks \<and>
         timedelta_us days hours weeks < 1000000000 * 86400000000
      then Inr (timedelta_us days hours weeks)
      else Inl OverflowError)"

text \<open>
  \<open>end_training + datetime.timedelta(...)\<close>: the sum is a time stamp again, and pandas
  raises its out-of-bounds error when the sum leaves the range of a time stamp.
\<close>

definition ts_add :: "int \<Rightarrow> int \<Rightarrow> py_error + pyval" where
  "ts_add e d = (if ts_in_range (e + d) then Inr (Timestamp (e + d)) else Inl OutOfBoundsDatetime)"

text \<open>A \<open>timedelta\<close> passed on as it is, or the error of its constructor.\<close>

definition as_timedelta :: "py_error + int \<Rightarrow> py_error + pyval" where
  "as_timedelta r = (case r of Inl e \<Rightarrow> Inl e | Inr d \<Rightarrow> Inr (Timedelta d))"

text \<open>
  \<^verbatim>\<open>
  forecast_date=end_training
                  + datetime.timedelta(days=forecast_horizon) if interval == "D"
                      else datetime.timedelta(hours=forecast_horizon) if interval == "H"
                      else datetime.timedelta(weeks=forecast_horizon) if interval == "W"
                      else datetime.timedelta(days=forecast_horizon*30) if interval == "M"
                      else 0,
  \<close>
  A conditional expression binds weaker than \<open>+\<close>, so the sum is the first alternative
  only; Python evaluates the condition first and then the chosen alternative, so
  \<open>end_training\<close> is read in the first alternative only, before the \<open>timedelta\<close> is made.
\<close>

definition forecast_date :: "string \<Rightarrow> int option \<Rightarrow> int \<Rightarrow> py_error + pyval" where
  "forecast_date i et h =
     (if i = ''D'' then
        (case et of
           None \<Rightarrow> Inl NameError
         | Some e \<Rightarrow>
             (case timedelta h 0 0 of Inl err \<Rightarrow> Inl err | Inr d \<Rightarrow> ts_add e d))
      else if i = ''H'' then as_timedelta (timedelta 0 h 0)
      else if i = ''W'' then as_timedelta (timedelta 0 0 h)
      else if i = ''M'' then as_timedelta (timedelta (h * 30) 0 0)
      else Inr (PyInt 0))"

definition plot_interact :: "widget_input \<Rightarrow> nb_state \<Rightarrow> py_error + nb_state" where
  "plot_interact w s =
     (case forecast_date (interval s) (end_training s) (forecast_horizon w) of
        Inl e \<Rightarrow> Inl e
      | Inr fd \<Rightarrow>
          Inr (calls
                 [UtilPlot \<lparr> pa_stock_id = stock_id w,
                             pa_mnemonics = mnemonics s,
                             pa_target_column = target_column s,
                             pa_covariate_columns = covariate_columns s,
                             pa_prediction_length = prediction_length s,
                             pa_history = history_plot w * prediction_length s,
                             pa_forecast_date = fd,
                             pa_show_samples = show_samples w,
                             pa_confidence = confidence w \<rparr>] s))"

subsection \<open>The whole notebook\<close>

text \<open>
  The cells after the configuration cell, in the order of the file. \<open>te\<close> is the end of
  the training range reported by the utility module; \<open>presses\<close> are the presses of the
  widget's button, made while the plot is in use, before the endpoint is deleted.
\<close>

definition setup_cells :: "int \<Rightarrow> (nb_state \<Rightarrow> py_error + nb_state) list" where
  "setup_cells te =
     [session_cell, metrics_cell, split_cell te, metrics_plot_cell, timeseries_plot_cell,
      training_cell, deploy_cell, attach_cell, query_cell, quantile_plot_cell, widget_cell]"

definition later_cells :: "int \<Rightarrow> widget_input list \<Rightarrow> (nb_state \<Rightarrow> py_error + nb_state) list" where
  "later_cells te presses = setup_cells te @ map plot_interact presses @ [delete_cell]"

definition run_notebook :: "string \<Rightarrow> int \<Rightarrow> widget_input list \<Rightarrow> py_error + nb_state" where
  "run_notebook i te presses =
     (case config_cell i of Inl e \<Rightarrow> Inl e | Inr s \<Rightarrow> run_cells (later_cells te presses) s)"

text \<open>Python's list indexing: a negative index counts from the end, out of range raises.\<close>

definition py_index :: "'a list \<Rightarrow> int \<Rightarrow> py_error + 'a" where
  "py_index xs i =
     (let n = int (length xs); j = (if i < 0 then n + i else i)
      in if 0 \<le> j \<and> j < n then Inr (xs ! nat j) else Inl IndexError)"

text \<open>The variables no cell after the configuration cell assigns to.\<close>

definition same_config :: "nb_state \<Rightarrow> nb_state \<Rightarrow> bool" where
  "same_config s s' =
     (interval s' = interval s \<and> prediction_length s' = prediction_length s \<and>
      context_length s' = context_length s \<and> mnemonics s' = mnemonics s \<and>
      hyperparameters s' = hyperparameters s)"

subsection \<open>Example inputs\<close>

definition press_example :: widget_input where
  "press_example =
     \<lparr> stock_id = 3, forecast_horizon = 2, confidence = 80, history_plot = 1,
       show_samples = False \<rparr>"

definition daily_state :: nb_state where
  "daily_state = projr (config_cell ''D'')"

definition hourly_state :: nb_state where
  "hourly_state = (projr (config_cell ''H''))\<lparr>end_training := Some 1514764800000000\<rparr>"


section \<open>Tables and per-series records\<close>

text \<open>
  The notebook hands the loaded table to helpers of the utility module
  \<open>deepar_util.py\<close> (\<open>generate_train_test_set\<close>, \<open>write_dicts_to_file\<close>,
  \<open>query_for_stock\<close>, and \<open>deeparize\<close>, which its text names). That module is not among
  the sources, so the data-reshaping helper is modelled here from the specification's
  data model. Prices are never computed with, only moved, so the type of values is a
  parameter \<open>'v\<close>.
\<close>

type_synonym timepoint = int

text \<open>
  Modelled from the spec: the table returned by \<open>util.load_resampled_from_s3\<close>, "a wide
  time-indexed table": one row per time point of the index, one column per pair of
  stock symbol and metric.
\<close>

record 'v table =
  tindex :: "timepoint list"
  tcolumns :: "((string \<times> string) \<times> 'v list) list"

text \<open>
  Modelled from the spec: reading the column of a symbol and a metric from the table
  (the table type of \<open>deepar_util.py\<close> is missing); \<open>None\<close> when there is none.
\<close>

definition column :: "'v table \<Rightarrow> string \<Rightarrow> string \<Rightarrow> 'v list option" where
  "column t s m = map_of (tcolumns t) (s, m)"

text \<open>
  Modelled from the spec: what makes the table "time-indexed": no time point occurs
  twice in the index and every column has one value per time point.
\<close>

definition wf_table :: "'v table \<Rightarrow> bool" where
  "wf_table t =
     (distinct (tindex t) \<and>
      list_all (\<lambda>kv. length (snd kv) = length (tindex t)) (tcolumns t))"

text \<open>
  Modelled from the spec: the value the table holds for a symbol and a metric at a
  time point (the cell of that row and column).
\<close>

definition value_at :: "'v table \<Rightarrow> string \<Rightarrow> string \<Rightarrow> timepoint \<Rightarrow> 'v option" where
  "value_at t s m tp =
     (case column t s m of None \<Rightarrow> None | Some vs \<Rightarrow> map_of (zip (tindex t) vs) tp)"

text \<open>
  Modelled from the spec: the entities of the table, one per stock symbol that has a
  column ("per-entity sequence records").
\<close>

definition table_symbols :: "'v table \<Rightarrow> string list" where
  "table_symbols t = remdups (map (\<lambda>kv. fst (fst kv)) (tcolumns t))"

text \<open>
  Modelled from the spec: "the same series truncated at different horizon boundaries";
  \<open>slice a b\<close> keeps the positions from \<open>a\<close> up to, not including, \<open>b\<close>, and
  is the truncation of one sequence (the slicing done in \<open>deepar_util.py\<close> is missing).
\<close>

definition slice :: "nat \<Rightarrow> nat \<Rightarrow> 'a list \<Rightarrow> 'a list" where
  "slice a b xs = take (b - a) (drop a xs)"

text \<open>
  Modelled from the spec: the table cut to the rows from \<open>a\<close> up to, not including,
  \<open>b\<close>: the part of the table a train or test record is built from (the boundaries
  chosen by \<open>generate_train_test_set\<close> are missing).
\<close>

definition window :: "nat \<Rightarrow> nat \<Rightarrow> 'v table \<Rightarrow> 'v table" where
  "window a b t =
     \<lparr> tindex = slice a b (tindex t),
       tcolumns = map (\<lambda>(k, vs). (k, slice a b vs)) (tcolumns t) \<rparr>"

text \<open>
  Modelled from the spec: the time series record, "an identifier (stock symbol), a start
  timestamp, a target value sequence (closing prices), and zero or more parallel
  covariate sequences (open/min/max prices)". It is the dictionary that
  \<open>write_dicts_to_file\<close> writes as one JSON record.
\<close>

record 'v series =
  sr_id :: string
  sr_start :: timepoint
  sr_target :: "'v list"
  sr_dynamic_feat :: "'v list list"

text \<open>
  Modelled from the spec: collecting the covariate columns of one symbol, in the order
  of \<open>covariate_columns\<close>; a column that the table does not have is a \<open>KeyError\<close>.
\<close>

fun lookup_columns :: "'v table \<Rightarrow> string \<Rightarrow> string list \<Rightarrow> py_error + 'v list list" where
  "lookup_columns t s [] = Inr []"
| "lookup_columns t s (c # cs) =
     (case column t s c of
        None \<Rightarrow> Inl KeyError
      | Some vs \<Rightarrow>
          (case lookup_columns t s cs of Inl e \<Rightarrow> Inl e | Inr vss \<Rightarrow> Inr (vs # vss)))"

text \<open>
  Modelled from the spec: the record of one symbol, built from the table: the start is
  the first time point of the index (an empty table has none), the target is the
  target column, the covariates are the covariate columns.
\<close>

definition series_record :: "'v table \<Rightarrow> string \<Rightarrow> string list \<Rightarrow> string \<Rightarrow> py_error + 'v series" where
  "series_record t tc covs s =
     (case tindex t of
        [] \<Rightarrow> Inl IndexError
      | t0 # rest \<Rightarrow>
          (case column t s tc of
             None \<Rightarrow> Inl KeyError
           | Some tv \<Rightarrow>
               (case lookup_columns t s covs of
                  Inl e \<Rightarrow> Inl e
                | Inr dvs \<Rightarrow>
                    Inr \<lparr> sr_id = s, sr_start = t0, sr_target = tv, sr_dynamic_feat = dvs \<rparr>)))"

text \<open>
  Modelled from the spec: the records of a list of symbols, in the order of the list
  (the loop of the missing \<open>deeparize\<close>); the first failure ends it.
\<close>

fun series_records :: "'v table \<Rightarrow> string \<Rightarrow> string list \<Rightarrow> string list \<Rightarrow> py_error + 'v series list" where
  "series_records t tc covs [] = Inr []"
| "series_records t tc covs (s # ss) =
     (case series_record t tc covs s of
        Inl e \<Rightarrow> Inl e
      | Inr r \<Rightarrow>
          (case series_records t tc covs ss of Inl e \<Rightarrow> Inl e | Inr rs \<Rightarrow> Inr (r # rs)))"

text \<open>
  Modelled from the spec: \<open>deeparize\<close>, the "data-reshaping helper that converts a wide
  time-indexed table into a list of per-entity sequence records with optional
  covariate arrays": one record per symbol of the table.
\<close>

definition deeparize :: "'v table \<Rightarrow> string \<Rightarrow> string list \<Rightarrow> py_error + 'v series list" where
  "deeparize t tc covs = series_records t tc covs (table_symbols t)"

text \<open>
  Modelled from the spec: \<open>util.query_for_stock\<close>, which the notebook calls with a
  symbol, the two column settings, the table and \<open>prediction_length\<close>, and which
  returns \<open>ts\<close>, \<open>dynamic_feat\<close> and \<open>observed\<close>. The request carries "a series of
  historical target values" and "dynamic-feature arrays covering the full forecast
  horizon": the forecast horizon is the last \<open>p\<close> rows of the table, \<open>ts\<close> is the target
  before it, \<open>observed\<close> the target within it, and the covariates run over both.
\<close>

definition query_for_stock ::
  "string \<Rightarrow> string \<Rightarrow> string list \<Rightarrow> 'v table \<Rightarrow> nat \<Rightarrow>
     py_error + ('v list \<times> 'v list list \<times> 'v list)" where
  "query_for_stock s tc covs t p =
     (case column t s tc of
        None \<Rightarrow> Inl KeyError
      | Some tv \<Rightarrow>
          (case lookup_columns t s covs of
             Inl e \<Rightarrow> Inl e
           | Inr dvs \<Rightarrow> Inr (take (length tv - p) tv, dvs, drop (length tv - p) tv)))"

text \<open>
  Modelled from the spec: the columns one record stands for, its target under the
  target column and its covariate sequences under the covariate columns, in their
  order (part of the way back from records to a table, which no source file holds).
\<close>

definition record_columns :: "string \<Rightarrow> string list \<Rightarrow> 'v series \<Rightarrow> ((string \<times> string) \<times> 'v list) list" where
  "record_columns tc covs r =
     ((sr_id r, tc), sr_target r) # zip (map (Pair (sr_id r)) covs) (sr_dynamic_feat r)"

text \<open>
  Modelled from the spec: the way back of "round-tripping a table into per-series JSON
  records and back", which no source file holds. Each record gives back the columns
  of its symbol; the index is rebuilt from the start of the first record and the
  length \<open>step\<close> of the sampling interval.
\<close>

definition records_to_table :: "string \<Rightarrow> string list \<Rightarrow> int \<Rightarrow> 'v series list \<Rightarrow> 'v table" where
  "records_to_table tc covs step rs =
     \<lparr> tindex = (case rs of [] \<Rightarrow> []
                 | r # rest \<Rightarrow> map (\<lambda>i. sr_start r + int i * step) [0..<length (sr_target r)]),
       tcolumns = concat (map (record_columns tc covs) rs) \<rparr>"

text \<open>Every covariate sequence is as long as the target sequence.\<close>

definition same_length :: "'v list \<Rightarrow> 'v list list \<Rightarrow> bool" where
  "same_length tv dvs = list_all (\<lambda>d. length d = length tv) dvs"

definition query_same_length :: "py_error + ('v list \<times> 'v list list \<times> 'v list) \<Rightarrow> bool" where
  "query_same_length q = (case q of Inl e \<Rightarrow> True | Inr (tv, dvs, obs) \<Rightarrow> same_length tv dvs)"

subsection \<open>An example table\<close>

definition example_covs :: "string list" where
  "example_covs = [''StartPrice'', ''MinPrice'', ''MaxPrice'']"

definition example_table :: "int table" where
  "example_table =
     \<lparr> tindex = [0, 1, 2, 3],
       tcolumns =
         [((''BMW'', ''StartPrice''), [70, 71, 72, 73]),
          ((''BMW'', ''MinPrice''), [69, 70, 71, 72]),
          ((''BMW'', ''MaxPrice''), [72, 73, 74, 75]),
          ((''BMW'', ''EndPrice''), [71, 72, 73, 74]),
          ((''DAI'', ''StartPrice''), [50, 51, 52, 53]),
          ((''DAI'', ''MinPrice''), [49, 50, 51, 52]),
          ((''DAI'', ''MaxPrice''), [52, 53, 54, 55]),
          ((''DAI'', ''EndPrice''), [51, 52, 53, 54])] \<rparr>"

text \<open>The records of its two symbols over the rows 1 and 2.\<close>

definition example_records :: "int series list" where
  "example_records =
     [\<lparr> sr_id = ''BMW'', sr_start = 1, sr_target = [72, 73],
         sr_dynamic_feat = [[71, 72], [70, 71], [73, 74]] \<rparr>,
      \<lparr> sr_id = ''DAI'', sr_start = 1, sr_target = [52, 53],
         sr_dynamic_feat = [[51, 52], [50, 51], [53, 54]] \<rparr>]"

section \<open>Properties of the notebook\<close>

subsection \<open>Running lists of cells\<close>

lemma run_cells_append:
  "run_cells (xs @ ys) s = (case run_cells xs s of Inl e \<Rightarrow> Inl e | Inr s' \<Rightarrow> run_cells ys s')"
  by (induction xs arbitrary: s) (auto split: sum.splits)

lemma config_cell_Inr:
  assumes "config_cell i = Inr s"
  shows "(i = ''D'' \<or> i = ''H'') \<and> interval s = i \<and>
         mnemonics s = [''CON'', ''DAI'', ''PAH3'', ''BMW'', ''VOW3''] \<and>
         lengths_for i = Some (prediction_length s, context_length s) \<and>
         hyperparameters s = make_hyperparameters i (prediction_length s) (context_length s) \<and>
         metrics s = None \<and> end_training s = None \<and> trace s = []"
  using assms by (auto simp: config_cell_def split: if_splits option.splits)

lemma config_cell_daily: "config_cell ''D'' = Inr daily_state"
  by (simp add: daily_state_def config_cell_def lengths_for_def)

lemma later_cell_keeps:
  assumes "c \<in> set (later_cells te presses)" and "c s = Inr s'"
  shows "same_config s s'"
  using assms
  by (auto simp: later_cells_def setup_cells_def same_config_def calls_def session_cell_def
      metrics_cell_def split_cell_def metrics_plot_cell_def timeseries_plot_cell_def
      training_cell_def deploy_cell_def attach_cell_def query_cell_def quantile_plot_cell_def
      widget_cell_def plot_interact_def delete_cell_def split: option.splits sum.splits)

lemma run_cells_keep:
  assumes "\<And>c s s'. c \<in> set cs \<Longrightarrow> c s = Inr s' \<Longrightarrow> same_config s s'"
    and "run_cells cs s = Inr s'"
  shows "same_config s s'"
  using assms
proof (induction cs arbitrary: s)
  case Nil
  then show ?case by (simp add: same_config_def)
next
  case (Cons c cs)
  from Cons.prems(2) obtain s1 where c: "c s = Inr s1" and r: "run_cells cs s1 = Inr s'"
    by (auto split: sum.splits)
  have "same_config s s1" using Cons.prems(1)[of c s s1] c by simp
  moreover have "same_config s1 s'"
  proof (rule Cons.IH[OF _ r])
    fix d t t' assume "d \<in> set cs" and "d t = Inr t'"
    then show "same_config t t'" using Cons.prems(1)[of d t t'] by simp
  qed
  ultimately show ?case by (simp add: same_config_def)
qed

lemma prefix_keeps:
  assumes "run_cells (take n (later_cells te presses)) s = Inr s'"
  shows "same_config s s'"
  using run_cells_keep[OF _ assms] later_cell_keeps in_set_takeD by metis

subsection \<open>Presses of the widget's button\<close>

lemma plot_interact_Inr:
  assumes "plot_interact w s = Inr s'"
  shows "\<exists>a. s' = calls [UtilPlot a] s \<and>
             forecast_date (interval s) (end_training s) (forecast_horizon w) =
               Inr (pa_forecast_date a)"
  using assms by (auto simp: plot_interact_def split: sum.splits)

text \<open>Pressing the widget's button any number of times adds only calls of \<open>util.plot\<close>.\<close>

lemma run_presses_trace:
  assumes "run_cells (map plot_interact presses) s = Inr s'"
  shows "filter high_level (trace s') = filter high_level (trace s)"
  using assms
proof (induction presses arbitrary: s)
  case Nil
  then show ?case by simp
next
  case (Cons w ws)
  from Cons.prems obtain s1 where s1: "plot_interact w s = Inr s1"
    and r: "run_cells (map plot_interact ws) s1 = Inr s'"
    by (auto split: sum.splits)
  from plot_interact_Inr[OF s1] have "filter high_level (trace s1) = filter high_level (trace s)"
    by (auto simp: calls_def)
  with Cons.IH[OF r] show ?case by simp
qed




subsection \<open>The cells before the widget is used\<close>

lemma run_setup_trace:
  assumes "run_cells (setup_cells te) s0 = Inr s" and "trace s0 = []"
  shows "filter high_level (trace s) = [EstimatorConstruct, Fit, Deploy, Predict]"
  using assms
  by (auto simp: setup_cells_def calls_def session_cell_def metrics_cell_def
      split_cell_def metrics_plot_cell_def timeseries_plot_cell_def training_cell_def
      deploy_cell_def attach_cell_def query_cell_def quantile_plot_cell_def widget_cell_def
      split: sum.splits option.splits)

lemma run_setup_ok:
  assumes "config_cell i = Inr s0" and "te mod 1000000 = 0" and "ts_in_range te"
  shows "\<exists>s. run_cells (setup_cells te) s0 = Inr s \<and> end_training s = Some te \<and>
             interval s = i"
proof -
  from config_cell_Inr[OF assms(1)] have i: "i = ''D'' \<or> i = ''H''" and
    f: "interval s0 = i"
       "lengths_for i = Some (prediction_length s0, context_length s0)" by simp_all
  from i f(2) have c: "context_length s0 = 91 \<or> context_length s0 = 2184"
    by (auto simp: lengths_for_def)
  have l: "\<exists>v. int_log10_plus_1 (context_length s0) = Inr v"
    using c by (auto simp: int_log10_plus_1_def)
  have p: "parse_end_training te = Inr te"
    using assms(2,3) by (simp add: parse_end_training_def)
  show ?thesis using f l p
    by (auto simp: setup_cells_def calls_def session_cell_def metrics_cell_def
      split_cell_def metrics_plot_cell_def timeseries_plot_cell_def training_cell_def
      deploy_cell_def attach_cell_def query_cell_def quantile_plot_cell_def widget_cell_def
      forecast_horizon_slider_def)
qed



lemma run_notebook_cases:
  assumes "config_cell i = Inr s0"
  shows "run_notebook i te presses =
           (case run_cells (setup_cells te) s0 of
              Inl e \<Rightarrow> Inl e
            | Inr s1 \<Rightarrow>
                (case run_cells (map plot_interact presses) s1 of
                   Inl e \<Rightarrow> Inl e
                 | Inr s2 \<Rightarrow> Inr (calls [DeleteEndpoint] s2)))"
  unfolding run_notebook_def later_cells_def
  by (simp add: assms run_cells_append delete_cell_def split: sum.splits)

lemma run_notebook_Inr:
  assumes "run_notebook i te presses = Inr s"
  shows "filter high_level (trace s) =
           [EstimatorConstruct, Fit, Deploy, Predict, DeleteEndpoint] \<and>
         trace s \<noteq> [] \<and> last (trace s) = DeleteEndpoint"
proof -
  from assms obtain s0 where c: "config_cell i = Inr s0"
    by (auto simp: run_notebook_def split: sum.splits)
  from assms run_notebook_cases[OF c, of te presses] obtain s1 s2 where
    s1: "run_cells (setup_cells te) s0 = Inr s1"
    and s2: "run_cells (map plot_interact presses) s1 = Inr s2"
    and s: "s = calls [DeleteEndpoint] s2"
    by (auto split: sum.splits)
  from config_cell_Inr[OF c] have "trace s0 = []" by simp
  from run_setup_trace[OF s1 this] run_presses_trace[OF s2] s
  show ?thesis by (simp add: calls_def)
qed

lemma run_setup_daily:
  "run_cells (take 11 (later_cells 0 [])) daily_state = Inr (projr (run_cells (setup_cells 0) daily_state))"
proof -
  have "ts_in_range 0" by (simp add: ts_in_range_def)
  with run_setup_ok[OF config_cell_daily, of 0] obtain s where
    "run_cells (setup_cells 0) daily_state = Inr s" by auto
  then show ?thesis by (simp add: later_cells_def setup_cells_def)
qed


subsection \<open>Error handling\<close>




subsection \<open>Order of the calls\<close>

text \<open>
  C7. In every run of the notebook that completes, the high-level calls occur in the
  order estimator construction, \<open>fit\<close>, \<open>deploy\<close>, \<open>predict\<close>, \<open>delete_endpoint\<close>, each
  once, and \<open>delete_endpoint\<close> is the last call of the run: the endpoint made by
  \<open>deploy\<close> is torn down by the notebook itself, at the end.
\<close>

theorem workflow_order:
  assumes "run_notebook i te presses = Inr s"
  shows "filter high_level (trace s) =
           [EstimatorConstruct, Fit, Deploy, Predict, DeleteEndpoint] \<and>
         trace s \<noteq> [] \<and> last (trace s) = DeleteEndpoint"
  using run_notebook_Inr[OF assms] .

theorem workflow_order_witness:
  "run_notebook ''D'' 0 [] = Inr (projr (run_notebook ''D'' 0 [])) \<and>
   filter high_level (trace (projr (run_notebook ''D'' 0 []))) =
     [EstimatorConstruct, Fit, Deploy, Predict, DeleteEndpoint] \<and>
   last (trace (projr (run_notebook ''D'' 0 []))) = DeleteEndpoint"
proof -
  have r: "run_notebook ''D'' 0 [] = Inr (projr (run_notebook ''D'' 0 []))"
    by (simp add: run_notebook_def config_cell_def lengths_for_def later_cells_def
        setup_cells_def session_cell_def metrics_cell_def split_cell_def
        parse_end_training_def ts_in_range_def metrics_plot_cell_def
        timeseries_plot_cell_def training_cell_def deploy_cell_def attach_cell_def
        query_cell_def quantile_plot_cell_def widget_cell_def forecast_horizon_slider_def
        int_log10_plus_1_def delete_cell_def calls_def)
  from workflow_order [OF r] r show ?thesis by simp
qed

subsection \<open>The forecast date handed to the plot\<close>

text \<open>
  C8. Whenever \<open>plot_interact\<close> calls \<open>util.plot\<close>, the call is the one entry it adds to
  the trace, and its \<open>forecast_date\<close> argument is
  \<open>end_training + timedelta(days=forecast_horizon)\<close> exactly when \<open>interval\<close> is \<open>'D'\<close>.
  For every other interval it is the offset alone, \<open>end_training\<close> not added:
  \<open>timedelta(hours=forecast_horizon)\<close> for \<open>'H'\<close>, \<open>timedelta(weeks=forecast_horizon)\<close>
  for \<open>'W'\<close>, \<open>timedelta(days=forecast_horizon*30)\<close> for \<open>'M'\<close>, and 0 otherwise. The
  call is made for every horizon the slider admits, provided, for \<open>'D'\<close>, that the sum
  is within the range of a time stamp.
\<close>

theorem forecast_date_grouping:
  assumes "end_training s = Some e"
  shows "(\<forall>s'. plot_interact w s = Inr s' \<longrightarrow>
           (\<exists>a. s' = calls [UtilPlot a] s \<and> trace s' = trace s @ [UtilPlot a] \<and>
              (pa_forecast_date a = Timestamp (e + timedelta_us (forecast_horizon w) 0 0)
                 \<longleftrightarrow> interval s = ''D'') \<and>
              (interval s = ''H'' \<longrightarrow>
                 pa_forecast_date a = Timedelta (timedelta_us 0 (forecast_horizon w) 0)) \<and>
              (interval s = ''W'' \<longrightarrow>
                 pa_forecast_date a = Timedelta (timedelta_us 0 0 (forecast_horizon w))) \<and>
              (interval s = ''M'' \<longrightarrow>
                 pa_forecast_date a =
                   Timedelta (timedelta_us (forecast_horizon w * 30) 0 0)) \<and>
              (interval s \<notin> {''D'', ''H'', ''W'', ''M''} \<longrightarrow>
                 pa_forecast_date a = PyInt 0))) \<and>
         (forecast_horizon_slider s = Inr sl \<and> slider_admits sl (forecast_horizon w) \<and>
          context_length s \<le> 2184 \<and>
          (interval s = ''D'' \<longrightarrow>
             ts_in_range (e + timedelta_us (forecast_horizon w) 0 0)) \<longrightarrow>
          (\<exists>s'. plot_interact w s = Inr s'))"
proof -
  have A: "\<exists>a. s' = calls [UtilPlot a] s \<and> trace s' = trace s @ [UtilPlot a] \<and>
              (pa_forecast_date a = Timestamp (e + timedelta_us (forecast_horizon w) 0 0)
                 \<longleftrightarrow> interval s = ''D'') \<and>
              (interval s = ''H'' \<longrightarrow>
                 pa_forecast_date a = Timedelta (timedelta_us 0 (forecast_horizon w) 0)) \<and>
              (interval s = ''W'' \<longrightarrow>
                 pa_forecast_date a = Timedelta (timedelta_us 0 0 (forecast_horizon w))) \<and>
              (interval s = ''M'' \<longrightarrow>
                 pa_forecast_date a =
                   Timedelta (timedelta_us (forecast_horizon w * 30) 0 0)) \<and>
              (interval s \<notin> {''D'', ''H'', ''W'', ''M''} \<longrightarrow>
                 pa_forecast_date a = PyInt 0)"
    if "plot_interact w s = Inr s'" for s'
  proof -
    from plot_interact_Inr[OF that] obtain a where a: "s' = calls [UtilPlot a] s"
      and f: "forecast_date (interval s) (Some e) (forecast_horizon w) = Inr (pa_forecast_date a)"
      using assms by auto
    from a have t: "trace s' = trace s @ [UtilPlot a]" by (simp add: calls_def)
    from f have
      "(pa_forecast_date a = Timestamp (e + timedelta_us (forecast_horizon w) 0 0)
                 \<longleftrightarrow> interval s = ''D'') \<and>
              (interval s = ''H'' \<longrightarrow>
                 pa_forecast_date a = Timedelta (timedelta_us 0 (forecast_horizon w) 0)) \<and>
              (interval s = ''W'' \<longrightarrow>
                 pa_forecast_date a = Timedelta (timedelta_us 0 0 (forecast_horizon w))) \<and>
              (interval s = ''M'' \<longrightarrow>
                 pa_forecast_date a =
                   Timedelta (timedelta_us (forecast_horizon w * 30) 0 0)) \<and>
              (interval s \<notin> {''D'', ''H'', ''W'', ''M''} \<longrightarrow>
                 pa_forecast_date a = PyInt 0)"
      by (auto simp: forecast_date_def timedelta_def ts_add_def as_timedelta_def
          split: if_splits sum.splits)
    with a t show ?thesis by blast
  qed
  have B: "\<exists>s'. plot_interact w s = Inr s'"
    if h: "forecast_horizon_slider s = Inr sl \<and> slider_admits sl (forecast_horizon w) \<and>
          context_length s \<le> 2184 \<and>
          (interval s = ''D'' \<longrightarrow> ts_in_range (e + timedelta_us (forecast_horizon w) 0 0))"
  proof -
    from h have r: "0 \<le> forecast_horizon w \<and> forecast_horizon w \<le> 2184"
      by (auto simp: forecast_horizon_slider_def int_log10_plus_1_def slider_admits_def
          int_three_quarters_def split: sum.splits if_splits)
    with h have "\<exists>fd. forecast_date (interval s) (Some e) (forecast_horizon w) = Inr fd"
      by (auto simp: forecast_date_def timedelta_def timedelta_us_def ts_add_def
          as_timedelta_def)
    with assms show ?thesis by (auto simp: plot_interact_def)
  qed
  from A B show ?thesis by blast
qed

theorem forecast_date_grouping_witness:
  "end_training hourly_state = Some 1514764800000000 \<and>
   (\<exists>a. plot_interact press_example hourly_state = Inr (calls [UtilPlot a] hourly_state) \<and>
        pa_forecast_date a = Timedelta 7200000000)"
proof -
  have e: "end_training hourly_state = Some 1514764800000000"
    by (simp add: hourly_state_def)
  have i: "interval hourly_state = ''H''"
    by (simp add: hourly_state_def config_cell_def lengths_for_def)
  have h: "forecast_horizon press_example = 2"
    by (simp add: press_example_def)
  have c: "context_length hourly_state = 2184"
    by (simp add: hourly_state_def config_cell_def lengths_for_def)
  obtain sl where sl: "forecast_horizon_slider hourly_state = Inr sl"
    and m: "s_min sl = 0" "s_max sl = 1638"
    using c by (auto simp: forecast_horizon_slider_def int_log10_plus_1_def
        int_three_quarters_def)
  from m h have ad: "slider_admits sl (forecast_horizon press_example)"
    by (simp add: slider_admits_def)
  from forecast_date_grouping [OF e, of press_example sl] i h c sl ad e show ?thesis
    by (auto simp: timedelta_us_def)
qed

subsection \<open>The two lengths\<close>

text \<open>
  C9. When the configuration cell has run without error, \<open>prediction_length\<close> equals
  \<open>context_length\<close>: both are 91 for \<open>'D'\<close> and both 2184 for \<open>'H'\<close>, and the two
  hyperparameters made from them are the same string. No later cell assigns to
  either, so the equality holds in the state every later cell and every press of the
  widget's button reads them from.
\<close>

theorem lengths_equal_throughout:
  assumes "config_cell i = Inr s0"
  shows "prediction_length s0 = context_length s0 \<and>
         (i = ''D'' \<longrightarrow> prediction_length s0 = 91 \<and> context_length s0 = 91) \<and>
         (i = ''H'' \<longrightarrow> prediction_length s0 = 2184 \<and> context_length s0 = 2184) \<and>
         map_of (hyperparameters s0) ''prediction_length'' =
           map_of (hyperparameters s0) ''context_length'' \<and>
         (\<forall>n te presses s. run_cells (take n (later_cells te presses)) s0 = Inr s \<longrightarrow>
            prediction_length s = context_length s \<and>
            prediction_length s = prediction_length s0 \<and>
            hyperparameters s = hyperparameters s0)"
proof -
  from config_cell_Inr[OF assms] have i: "i = ''D'' \<or> i = ''H''"
    and l: "lengths_for i = Some (prediction_length s0, context_length s0)"
    and h: "hyperparameters s0 = make_hyperparameters i (prediction_length s0) (context_length s0)"
    by simp_all
  from i l have eq: "prediction_length s0 = context_length s0"
    by (auto simp: lengths_for_def)
  from l have d: "i = ''D'' \<longrightarrow> prediction_length s0 = 91 \<and> context_length s0 = 91"
    by (auto simp: lengths_for_def split: if_splits)
  from l have hh: "i = ''H'' \<longrightarrow> prediction_length s0 = 2184 \<and> context_length s0 = 2184"
    by (auto simp: lengths_for_def split: if_splits)
  from h eq have m: "map_of (hyperparameters s0) ''prediction_length'' =
           map_of (hyperparameters s0) ''context_length''"
    by (simp add: make_hyperparameters_def)
  have k: "prediction_length s = context_length s \<and> prediction_length s = prediction_length s0 \<and>
            hyperparameters s = hyperparameters s0"
    if "run_cells (take n (later_cells te presses)) s0 = Inr s" for n te presses s
    using prefix_keeps[OF that] eq by (simp add: same_config_def)
  from eq d hh m k show ?thesis by blast
qed

theorem lengths_equal_throughout_witness:
  "config_cell ''H'' = Inr (projr (config_cell ''H'')) \<and>
   prediction_length (projr (config_cell ''H'')) = 2184 \<and>
   context_length (projr (config_cell ''H'')) = 2184"
proof -
  have c: "config_cell ''H'' = Inr (projr (config_cell ''H''))"
    by (simp add: config_cell_def lengths_for_def)
  from lengths_equal_throughout [OF c] c show ?thesis by simp
qed

subsection \<open>The stock slider\<close>

text \<open>
  C10. In every state the notebook reaches, each value the \<open>stock_id\<close> slider can hand
  to \<open>plot_interact\<close> lies between 0 and \<open>len(mnemonics)-1\<close>, which is 4 for the five
  configured symbols, and indexing \<open>mnemonics\<close> with it is in bounds.
\<close>

theorem stock_id_in_bounds:
  assumes "config_cell i = Inr s0"
    and "run_cells (take n (later_cells te presses)) s0 = Inr s"
    and "slider_admits (stock_id_slider s) v"
  shows "0 \<le> v \<and> v \<le> int (length (mnemonics s)) - 1 \<and> length (mnemonics s) = 5 \<and> v \<le> 4 \<and>
         py_index (mnemonics s) v = Inr (mnemonics s ! nat v)"
proof -
  from config_cell_Inr[OF assms(1)] prefix_keeps[OF assms(2)]
  have m: "mnemonics s = [''CON'', ''DAI'', ''PAH3'', ''BMW'', ''VOW3'']"
    by (simp add: same_config_def)
  from assms(3) have "0 \<le> v \<and> v \<le> int (length (mnemonics s)) - 1"
    by (simp add: slider_admits_def stock_id_slider_def)
  then show ?thesis using m by (simp add: py_index_def)
qed

theorem stock_id_in_bounds_witness:
  "config_cell ''D'' = Inr daily_state \<and>
   run_cells (take 11 (later_cells 0 [])) daily_state =
     Inr (projr (run_cells (setup_cells 0) daily_state)) \<and>
   slider_admits (stock_id_slider (projr (run_cells (setup_cells 0) daily_state))) 4 \<and>
   py_index (mnemonics (projr (run_cells (setup_cells 0) daily_state))) 4 = Inr ''VOW3''"
proof -
  let ?s = "projr (run_cells (setup_cells 0) daily_state)"
  from config_cell_Inr[OF config_cell_daily] prefix_keeps[OF run_setup_daily]
  have m: "mnemonics ?s = [''CON'', ''DAI'', ''PAH3'', ''BMW'', ''VOW3'']"
    by (simp add: same_config_def)
  then have a: "slider_admits (stock_id_slider ?s) 4"
    by (simp add: slider_admits_def stock_id_slider_def)
  from stock_id_in_bounds [OF config_cell_daily run_setup_daily a] config_cell_daily
    run_setup_daily a m
  show ?thesis by simp
qed

section \<open>Properties of the records\<close>

lemma lookup_columns_Inr:
  "lookup_columns t s covs = Inr dvs \<Longrightarrow> map Some dvs = map (column t s) covs"
  by (induction covs arbitrary: dvs) (auto split: option.splits sum.splits)

lemma column_length:
  assumes "wf_table t" and "column t s m = Some vs"
  shows "length vs = length (tindex t)"
proof -
  from assms(2) have "((s, m), vs) \<in> set (tcolumns t)"
    by (simp add: column_def map_of_SomeD)
  with assms(1) show ?thesis by (auto simp: wf_table_def list_all_iff)
qed

lemma value_at_row:
  assumes "wf_table t" and "column t s m = Some vs" and "k < length (tindex t)"
  shows "value_at t s m (tindex t ! k) = Some (vs ! k)"
  using assms column_length[OF assms(1,2)]
  by (simp add: value_at_def wf_table_def map_of_zip_nth)

lemma column_window:
  "column (window a b t) s m = map_option (slice a b) (column t s m)"
  by (simp add: column_def window_def map_of_map)

lemma table_symbols_window: "table_symbols (window a b t) = table_symbols t"
proof -
  have "(\<lambda>kv. fst (fst kv)) \<circ> (\<lambda>(k, vs). (k, slice a b vs)) =
        (\<lambda>kv :: (string \<times> string) \<times> 'a list. fst (fst kv))"
    by (auto simp: fun_eq_iff)
  then show ?thesis by (simp add: table_symbols_def window_def)
qed

lemma slice_nth:
  assumes "i < length (slice a b xs)"
  shows "slice a b xs ! i = xs ! (a + i) \<and> a + i < length xs"
  using assms by (auto simp: slice_def)

lemma series_record_Inr:
  assumes "series_record t tc covs s = Inr r"
  shows "sr_id r = s \<and> tindex t \<noteq> [] \<and> sr_start r = hd (tindex t) \<and>
         column t s tc = Some (sr_target r) \<and>
         map Some (sr_dynamic_feat r) = map (column t s) covs"
  using assms
  by (auto simp: series_record_def dest: lookup_columns_Inr
      split: list.splits option.splits sum.splits)

lemma series_records_mem:
  assumes "series_records t tc covs ss = Inr rs" and "r \<in> set rs"
  shows "\<exists>s \<in> set ss. series_record t tc covs s = Inr r"
  using assms
  by (induction ss arbitrary: rs) (auto split: sum.splits)


lemma wf_window:
  assumes "wf_table t"
  shows "wf_table (window a b t)"
  using assms
  by (auto simp: wf_table_def window_def slice_def list_all_iff distinct_drop)

lemma map_Some_nth:
  assumes "map Some dvs = map f covs" and "j < length covs"
  shows "length dvs = length covs \<and> f (covs ! j) = Some (dvs ! j)"
proof -
  from assms(1) have l: "length dvs = length covs"
    by (metis length_map)
  from assms have "map Some dvs ! j = map f covs ! j" by simp
  with l assms(2) show ?thesis by simp
qed

lemma window_value:
  assumes "wf_table t" and "column (window a b t) s m = Some vs" and "i < length vs"
  shows "value_at t s m (tindex t ! (a + i)) = Some (vs ! i) \<and>
         length vs = length (tindex (window a b t))"
proof -
  from assms(2) obtain ws where ws: "column t s m = Some ws" and vs: "vs = slice a b ws"
    by (auto simp: column_window)
  from assms(3) vs have n: "vs ! i = ws ! (a + i)" "a + i < length ws"
    using slice_nth[of i a b ws] by simp_all
  from column_length[OF assms(1) ws] n value_at_row[OF assms(1) ws, of "a + i"]
  have "value_at t s m (tindex t ! (a + i)) = Some (vs ! i)" by simp
  moreover from column_length[OF wf_window[OF assms(1)] assms(2)]
  have "length vs = length (tindex (window a b t))" .
  ultimately show ?thesis by simp
qed

lemma record_aligned:
  assumes "wf_table t" and "deeparize (window a b t) tc covs = Inr rs" and "r \<in> set rs"
  shows "length (sr_dynamic_feat r) = length covs"
    and "same_length (sr_target r) (sr_dynamic_feat r)"
    and "j < length covs \<Longrightarrow> i < length (sr_target r) \<Longrightarrow>
         value_at t (sr_id r) tc (tindex t ! (a + i)) = Some (sr_target r ! i) \<and>
         value_at t (sr_id r) (covs ! j) (tindex t ! (a + i)) = Some (sr_dynamic_feat r ! j ! i)"
proof -
  let ?w = "window a b t"
  from assms(2,3) series_records_mem[of ?w tc covs "table_symbols ?w" rs r]
  obtain s' where r: "series_record ?w tc covs s' = Inr r"
    by (auto simp: deeparize_def)
  from series_record_Inr[OF r] have id: "sr_id r = s'"
    and tc: "column ?w s' tc = Some (sr_target r)"
    and dv: "map Some (sr_dynamic_feat r) = map (column ?w s') covs" by simp_all
  show l: "length (sr_dynamic_feat r) = length covs"
    using dv by (metis length_map)
  have len: "length d = length (sr_target r)" if "d \<in> set (sr_dynamic_feat r)" for d
  proof -
    from that obtain k where k: "k < length (sr_dynamic_feat r)" "d = sr_dynamic_feat r ! k"
      by (auto simp: in_set_conv_nth)
    with l map_Some_nth[OF dv, of k] have "column ?w s' (covs ! k) = Some d" by simp
    from column_length[OF wf_window[OF assms(1)] this]
      column_length[OF wf_window[OF assms(1)] tc]
    show ?thesis by simp
  qed
  then show "same_length (sr_target r) (sr_dynamic_feat r)"
    by (simp add: same_length_def list_all_iff)
  assume j: "j < length covs" and i: "i < length (sr_target r)"
  from map_Some_nth[OF dv j] have cj: "column ?w s' (covs ! j) = Some (sr_dynamic_feat r ! j)"
    by simp
  from j l len have "length (sr_dynamic_feat r ! j) = length (sr_target r)" by simp
  with i window_value[OF assms(1) cj, of i] have
    "value_at t s' (covs ! j) (tindex t ! (a + i)) = Some (sr_dynamic_feat r ! j ! i)" by simp
  with window_value[OF assms(1) tc i] id
  show "value_at t (sr_id r) tc (tindex t ! (a + i)) = Some (sr_target r ! i) \<and>
        value_at t (sr_id r) (covs ! j) (tindex t ! (a + i)) = Some (sr_dynamic_feat r ! j ! i)"
    by simp
qed

lemma query_aligned:
  assumes "wf_table t" and "query_for_stock s tc covs t p = Inr (tv, dvs, obs)"
  shows "length dvs = length covs"
    and "length tv = length (tindex t) - p"
    and "length obs = min p (length (tindex t))"
    and "j < length covs \<Longrightarrow> length (dvs ! j) = length tv + length obs"
    and "j < length covs \<Longrightarrow> i < length tv \<Longrightarrow>
         value_at t s tc (tindex t ! i) = Some (tv ! i) \<and>
         value_at t s (covs ! j) (tindex t ! i) = Some (dvs ! j ! i)"
proof -
  from assms(2) obtain ws where ws: "column t s tc = Some ws"
    and dv: "map Some dvs = map (column t s) covs"
    and tv: "tv = take (length ws - p) ws" and obs: "obs = drop (length ws - p) ws"
    by (auto simp: query_for_stock_def dest: lookup_columns_Inr split: option.splits sum.splits)
  note n = column_length[OF assms(1) ws]
  show "length dvs = length covs" using dv by (metis length_map)
  show "length tv = length (tindex t) - p" using tv n by simp
  show "length obs = min p (length (tindex t))" using obs n by auto
  {
    assume j: "j < length covs"
    from map_Some_nth[OF dv j] have cj: "column t s (covs ! j) = Some (dvs ! j)" by simp
    note nj = column_length[OF assms(1) cj]
    show "length (dvs ! j) = length tv + length obs" using nj n tv obs by simp
    assume i: "i < length tv"
    with tv n have k: "i < length (tindex t)" "tv ! i = ws ! i" by simp_all
    from value_at_row[OF assms(1) ws k(1)] value_at_row[OF assms(1) cj k(1)] k(2)
    show "value_at t s tc (tindex t ! i) = Some (tv ! i) \<and>
          value_at t s (covs ! j) (tindex t ! i) = Some (dvs ! j ! i)" by simp
  }
qed

subsection \<open>Alignment of covariates and target\<close>

text \<open>
  C2, as amended. Take a table with one value per time point in every column. In every
  record built from a window of it (the records of the train and test channels), there
  is one covariate sequence per covariate column, each as long as the target sequence,
  and position \<open>i\<close> of the target and of each covariate holds the table's value at one
  and the same time point, the \<open>i\<close>-th of the window. In a prediction query
  (\<open>query_for_stock\<close>) the target holds the history only, all rows but the last
  \<open>prediction_length\<close>, while each covariate sequence covers the history and the
  forecast horizon: it is aligned with the target on every position of the target and
  is longer than it by the length of \<open>observed\<close>.
\<close>

theorem covariates_aligned_on_target:
  assumes "wf_table t"
  shows "(\<forall>rs r. deeparize (window a b t) tc covs = Inr rs \<and> r \<in> set rs \<longrightarrow>
            length (sr_dynamic_feat r) = length covs \<and>
            same_length (sr_target r) (sr_dynamic_feat r) \<and>
            (\<forall>j < length covs. \<forall>i < length (sr_target r).
               value_at t (sr_id r) tc (tindex t ! (a + i)) = Some (sr_target r ! i) \<and>
               value_at t (sr_id r) (covs ! j) (tindex t ! (a + i)) =
                 Some (sr_dynamic_feat r ! j ! i))) \<and>
         (\<forall>tv dvs obs. query_for_stock s tc covs t p = Inr (tv, dvs, obs) \<longrightarrow>
            length dvs = length covs \<and>
            length tv = length (tindex t) - p \<and>
            length obs = min p (length (tindex t)) \<and>
            (\<forall>j < length covs.
               length (dvs ! j) = length tv + length obs \<and>
               (\<forall>i < length tv.
                  value_at t s tc (tindex t ! i) = Some (tv ! i) \<and>
                  value_at t s (covs ! j) (tindex t ! i) = Some (dvs ! j ! i))))"
proof -
  have A: "length (sr_dynamic_feat r) = length covs \<and>
            same_length (sr_target r) (sr_dynamic_feat r) \<and>
            (\<forall>j < length covs. \<forall>i < length (sr_target r).
               value_at t (sr_id r) tc (tindex t ! (a + i)) = Some (sr_target r ! i) \<and>
               value_at t (sr_id r) (covs ! j) (tindex t ! (a + i)) =
                 Some (sr_dynamic_feat r ! j ! i))"
    if "deeparize (window a b t) tc covs = Inr rs \<and> r \<in> set rs" for rs r
    using record_aligned[OF assms, of a b tc covs rs r] that by blast
  have B: "length dvs = length covs \<and>
            length tv = length (tindex t) - p \<and>
            length obs = min p (length (tindex t)) \<and>
            (\<forall>j < length covs.
               length (dvs ! j) = length tv + length obs \<and>
               (\<forall>i < length tv.
                  value_at t s tc (tindex t ! i) = Some (tv ! i) \<and>
                  value_at t s (covs ! j) (tindex t ! i) = Some (dvs ! j ! i)))"
    if "query_for_stock s tc covs t p = Inr (tv, dvs, obs)" for tv dvs obs
    using query_aligned[OF assms that] by blast
  from A B show ?thesis by blast
qed


lemma wf_example: "wf_table example_table"
  by (simp add: wf_table_def example_table_def)

theorem covariates_aligned_on_target_witness:
  "wf_table example_table \<and>
   query_for_stock ''BMW'' ''EndPrice'' example_covs example_table 1 =
     Inr ([71, 72, 73], [[70, 71, 72, 73], [69, 70, 71, 72], [72, 73, 74, 75]], [74]) \<and>
   value_at example_table ''BMW'' ''EndPrice'' 2 = Some 73 \<and>
   value_at example_table ''BMW'' ''StartPrice'' 2 = Some 72"
proof -
  have q: "query_for_stock ''BMW'' ''EndPrice'' example_covs example_table 1 =
     Inr ([71, 72, 73], [[70, 71, 72, 73], [69, 70, 71, 72], [72, 73, 74, 75]], [74])"
    by (simp add: query_for_stock_def column_def example_table_def example_covs_def)
  have i: "tindex example_table ! 2 = 2"
    by (simp add: example_table_def)
  from covariates_aligned_on_target [OF wf_example, of 0 4 "''EndPrice''" example_covs
      "''BMW''" 1] q
  have "\<forall>j<length example_covs. \<forall>i<length [71, 72, 73 :: int].
          value_at example_table ''BMW'' ''EndPrice'' (tindex example_table ! i) = Some ([71, 72, 73] ! i) \<and>
          value_at example_table ''BMW'' (example_covs ! j) (tindex example_table ! i) =
            Some ([[70, 71, 72, 73], [69, 70, 71, 72], [72, 73, 74, 75]] ! j ! i)"
    by blast
  from this[rule_format, of 0 2]
  have "value_at example_table ''BMW'' ''EndPrice'' (tindex example_table ! 2) = Some ([71, 72, 73] ! 2) \<and>
          value_at example_table ''BMW'' (example_covs ! 0) (tindex example_table ! 2) =
            Some ([[70, 71, 72, 73], [69, 70, 71, 72], [72, 73, 74, 75]] ! 0 ! 2)"
    by (simp add: example_covs_def)
  with i q wf_example show ?thesis by (simp add: example_covs_def)
qed

text \<open>
  C2 as stated asks for covariate sequences of the same length as the target in
  prediction queries too. With a forecast horizon of one row, the query for \<open>BMW\<close> on
  the example table has a target of three values and covariates of four.
\<close>

theorem query_covariates_longer_counterexample:
  "\<not> query_same_length (query_for_stock ''BMW'' ''EndPrice'' example_covs example_table 1)"
  by (simp add: query_same_length_def same_length_def query_for_stock_def column_def
      example_table_def example_covs_def)

subsection \<open>From records back to the table\<close>

lemma map_of_cov_columns:
  assumes "map Some dvs = map f covs"
  shows "map_of (zip (map (Pair s) covs) dvs) (s', m) =
         (if s' = s \<and> m \<in> set covs then f m else None)"
  using assms
proof (induction covs arbitrary: dvs)
  case Nil
  then show ?case by simp
next
  case (Cons c cs)
  then obtain d ds where "dvs = d # ds" "f c = Some d" "map Some ds = map f cs"
    by (cases dvs) auto
  with Cons.IH[of ds] show ?case by auto
qed

lemma map_of_record_columns:
  assumes "series_record t tc covs s = Inr r"
  shows "map_of (record_columns tc covs r) (s', m) =
         (if s' = s \<and> m \<in> set (tc # covs) then column t s m else None)"
proof -
  from series_record_Inr[OF assms] have id: "sr_id r = s"
    and c: "column t s tc = Some (sr_target r)"
    and dv: "map Some (sr_dynamic_feat r) = map (column t s) covs" by simp_all
  show ?thesis
    using map_of_cov_columns[OF dv, of s s' m] id c
    by (auto simp: record_columns_def)
qed

lemma map_of_records_columns:
  assumes "series_records t tc covs ss = Inr rs"
  shows "map_of (concat (map (record_columns tc covs) rs)) (s, m) =
         (if s \<in> set ss \<and> m \<in> set (tc # covs) then column t s m else None)"
  using assms
proof (induction ss arbitrary: rs)
  case Nil
  then show ?case by simp
next
  case (Cons x xs)
  from Cons.prems obtain r rs' where r: "series_record t tc covs x = Inr r"
    and rs': "series_records t tc covs xs = Inr rs'" and rs: "rs = r # rs'"
    by (auto split: sum.splits)
  from map_of_record_columns[OF r, of s m] Cons.IH[OF rs'] rs
  show ?case
    by (cases "column t s m") (auto simp: map_add_def split: option.splits)
qed

lemma series_records_total:
  assumes "series_records t tc covs ss = Inr rs" and "s \<in> set ss"
  shows "\<exists>r. series_record t tc covs s = Inr r"
  using assms
  by (induction ss arbitrary: rs) (auto split: sum.splits)

lemma set_table_symbols: "column t s m = Some vs \<Longrightarrow> s \<in> set (table_symbols t)"
  by (force simp: column_def table_symbols_def dest: map_of_SomeD)

lemma columns_roundtrip:
  assumes "wf_table t" and "deeparize (window a b t) tc covs = Inr rs"
    and "m \<in> set (tc # covs)"
  shows "column (records_to_table tc covs step rs) s m = column (window a b t) s m \<and>
         column (window a b t) s m = map_option (slice a b) (column t s m) \<and>
         (s \<in> set (table_symbols t) \<longrightarrow> column (records_to_table tc covs step rs) s m \<noteq> None)"
proof -
  let ?w = "window a b t"
  from assms(2) have rs: "series_records ?w tc covs (table_symbols ?w) = Inr rs"
    by (simp add: deeparize_def)
  have 1: "column (records_to_table tc covs step rs) s m =
        (if s \<in> set (table_symbols ?w) then column ?w s m else None)"
    using map_of_records_columns[OF rs, of s m] assms(3)
    by (simp add: column_def records_to_table_def)
  have 2: "column ?w s m = None" if "s \<notin> set (table_symbols ?w)"
    using that set_table_symbols[of ?w s m] by (cases "column ?w s m") auto
  have 3: "column ?w s m \<noteq> None" if "s \<in> set (table_symbols t)"
  proof -
    from that have "s \<in> set (table_symbols ?w)" by (simp add: table_symbols_window)
    with series_records_total[OF rs] obtain r where r: "series_record ?w tc covs s = Inr r"
      by blast
    from map_of_record_columns[OF r, of s m] assms(3) series_record_Inr[OF r]
    show ?thesis
      by (cases "m = tc") (auto dest: map_Some_nth simp: in_set_conv_nth)
  qed
  from 1 2 3 show ?thesis by (auto simp: column_window)
qed

lemma records_index:
  assumes "wf_table t" and "deeparize t tc covs = Inr rs" and "rs \<noteq> []"
    and "tindex t = map (\<lambda>i. t0 + int i * step) [0..<n]"
  shows "tindex (records_to_table tc covs step rs) = tindex t"
proof -
  from assms(3) obtain r rest where rs: "rs = r # rest" by (cases rs) auto
  with assms(2) series_records_mem[of t tc covs "table_symbols t" rs r]
  obtain s where r: "series_record t tc covs s = Inr r"
    by (auto simp: deeparize_def)
  from series_record_Inr[OF r] have ne: "tindex t \<noteq> []" and st: "sr_start r = hd (tindex t)"
    and c: "column t s tc = Some (sr_target r)" by simp_all
  from column_length[OF assms(1) c] assms(4) have l: "length (sr_target r) = n" by simp
  from ne assms(4) have "0 < n" by (cases n) auto
  with assms(4) have "hd (tindex t) = t0" by (simp add: hd_map)
  with st l rs assms(4) show ?thesis by (simp add: records_to_table_def)
qed

lemma deeparize_example:
  "deeparize (window 1 3 example_table) ''EndPrice'' example_covs = Inr example_records"
  by (simp add: deeparize_def table_symbols_def series_record_def column_def
      window_def slice_def example_table_def example_covs_def example_records_def)

text \<open>
  C3. Take a table with one value per time point in every column, and the records made
  from any window of it (the rows written to a train or test channel). Turning the
  records back into a table gives, for every symbol and for the target column and
  every covariate column, exactly the column of the window, which is the table's
  column cut to the window; every symbol of the table has these columns in the result.
  When the window's time points are evenly spaced, the index comes back too.
\<close>

theorem table_records_roundtrip:
  assumes "wf_table t" and "deeparize (window a b t) tc covs = Inr rs"
  shows "(\<forall>s. \<forall>m \<in> set (tc # covs).
            column (records_to_table tc covs step rs) s m = column (window a b t) s m \<and>
            column (window a b t) s m = map_option (slice a b) (column t s m) \<and>
            (s \<in> set (table_symbols t) \<longrightarrow>
               column (records_to_table tc covs step rs) s m \<noteq> None)) \<and>
         (rs \<noteq> [] \<and> tindex (window a b t) = map (\<lambda>i. t0 + int i * step) [0..<n] \<longrightarrow>
            tindex (records_to_table tc covs step rs) = tindex (window a b t))"
  using columns_roundtrip[OF assms] records_index[OF wf_window[OF assms(1)] assms(2)]
  by blast

theorem table_records_roundtrip_witness:
  "wf_table example_table \<and>
   deeparize (window 1 3 example_table) ''EndPrice'' example_covs = Inr example_records \<and>
   column example_table ''DAI'' ''MinPrice'' = Some [49, 50, 51, 52] \<and>
   column (records_to_table ''EndPrice'' example_covs 1 example_records) ''DAI'' ''MinPrice'' =
     Some [50, 51]"
proof -
  have c: "column example_table ''DAI'' ''MinPrice'' = Some [49, 50, 51, 52]"
    by (simp add: column_def example_table_def)
  have m: "''MinPrice'' \<in> set (''EndPrice'' # example_covs)"
    by (simp add: example_covs_def)
  from table_records_roundtrip [OF wf_example deeparize_example, of 1 0 0] m
  have "column (records_to_table ''EndPrice'' example_covs 1 example_records) ''DAI'' ''MinPrice'' =
        map_option (slice 1 3) (column example_table ''DAI'' ''MinPrice'')"
    by simp
  with c wf_example deeparize_example show ?thesis by (simp add: slice_def)
qed

end
